theory Spec2Isabelle
  imports Main "HOL-Library.Sublist"
begin

section \<open>Data model\<close>

text \<open>
  The user table (\<open>itou.users.models.User\<close>). The source reads a user's email and the
  role flags \<open>is_prescriber\<close>, \<open>is_siae_staff\<close>, \<open>is_labor_inspector\<close> and
  \<open>is_job_seeker\<close>. A table is a list of rows in primary-key order, which is the order
  \<open>QuerySet.first()\<close> uses on an unordered queryset.
\<close>

record user =
  user_email :: string
  is_job_seeker :: bool
  is_prescriber :: bool
  is_siae_staff :: bool
  is_labor_inspector :: bool

text \<open>
  \<open>PrescriberOrganization.Kind\<close>, with the choices listed in migration
  \<open>prescribers/0021_auto_20200930_0959.py\<close>.
\<close>

datatype Kind =
    PE | CAP_EMPLOI | ML_ | DEPT | DEPT_BRSA | SPIP | PJJ | CCAS | PLIE | CHRS | CIDFF
  | PREVENTION | AFPA | PIJ_BIJ | CAF | CADA | ASE | CAVA | CPH | CHU | OACAS | OTHER

text \<open>
  The three target structures of an invitation. The forms read \<open>active_members\<close> (a
  queryset of users) of each, \<open>kind\<close> of a prescriber organization and \<open>is_active\<close>
  of a SIAE.
\<close>

record PrescriberOrganization =
  org_kind :: Kind
  org_active_members :: "user list"

record Siae =
  siae_is_active :: bool
  siae_active_members :: "user list"

record Institution =
  institution_active_members :: "user list"

section \<open>Queryset and string primitives used by the forms\<close>

text \<open>
  \<open>email__iexact\<close> compares two strings without regard to letter case. Strings are
  byte strings here, so the comparison folds the ASCII letters \<open>a\<close>..\<open>z\<close> only.
\<close>

definition upper_char :: "char \<Rightarrow> char" where
  \<comment> \<open>a lower-case letter has code 97..122; clearing bit 5 subtracts 32\<close>
  "upper_char c =
     (let n = (of_char c :: nat)
      in if 97 \<le> n \<and> n \<le> 122
         then Char (digit0 c) (digit1 c) (digit2 c) (digit3 c) (digit4 c) False (digit6 c) (digit7 c)
         else c)"

definition iexact :: "string \<Rightarrow> string \<Rightarrow> bool" where
  "iexact a b = (map upper_char a = map upper_char b)"

text \<open>\<open>QuerySet.first()\<close>: the first row, or \<open>None\<close> for an empty queryset.\<close>

fun first :: "'a list \<Rightarrow> 'a option" where
  "first [] = None"
| "first (x # xs) = Some x"

text \<open>\<open>QuerySet.exists()\<close>.\<close>

definition exists_qs :: "'a list \<Rightarrow> bool" where
  "exists_qs xs = (xs \<noteq> [])"

text \<open>Python's \<open>str.endswith\<close>.\<close>

definition endswith :: "string \<Rightarrow> string \<Rightarrow> bool" where
  "endswith s suf = (length suf \<le> length s \<and> drop (length s - length suf) s = suf)"

section \<open>Forms\<close>

text \<open>
  The validation messages of \<open>invitations_views/forms.py\<close>, one constructor per message:
  \<^item> \<open>NotAPrescriber\<close>: "Cet utilisateur n'est pas un prescripteur."
  \<^item> \<open>AlreadyInOrganization\<close>: "Cette personne fait deja partie de votre organisation."
  \<^item> \<open>NotPoleEmploiAddress\<close>: "L'adresse e-mail doit etre une adresse Pole emploi"
  \<^item> \<open>NotAnEmployer\<close>: "Cet utilisateur n'est pas un employeur."
  \<^item> \<open>NotALaborInspector\<close>: "Cet utilisateur n'est pas un inspecteur du travail."
  \<^item> \<open>AlreadyInStructure\<close>: "Cette personne fait deja partie de votre structure."
  \<^item> \<open>DuplicateEmails\<close>: "Les invitations doivent avoir des adresses e-mail differentes."
  \<^item> \<open>StructureInactive\<close>: "La structure que vous souhaitez rejoindre n'est plus active."
  \<^item> \<open>OtherError m\<close>: any message raised by the framework itself (a required field left
    blank, \<open>SignupForm.clean\<close>, ...).
\<close>

datatype ValidationError =
    NotAPrescriber | AlreadyInOrganization | NotPoleEmploiAddress
  | NotAnEmployer | NotALaborInspector | AlreadyInStructure
  | DuplicateEmails | StructureInactive | OtherError string

text \<open>Python exceptions other than \<open>ValidationError\<close> that the modelled code can raise.\<close>

datatype py_error = KeyError | IndexError

text \<open>
  The state of a form: \<open>data\<close> (the submitted value of each field, bound at
  construction), \<open>errors\<close> (field name and message, in the order added),
  \<open>cleaned_data\<close> (a dict, as an association list) and \<open>empty_permitted\<close>.
\<close>

record form =
  form_data :: "(string \<times> string) list"
  form_errors :: "(string \<times> ValidationError) list"
  cleaned_data :: "(string \<times> string) list"
  empty_permitted :: bool

record PrescriberWithOrgInvitationForm = form +
  pw_sender :: user
  pw_organization :: PrescriberOrganization

record SiaeStaffInvitationForm = form +
  ss_sender :: user
  ss_siae :: Siae

record LaborInspectorInvitationForm = form +
  li_sender :: user
  li_institution :: Institution

text \<open>
  \<open>Form.add_error(field, error)\<close>: the message is appended to the field's errors and
  the field is removed from \<open>cleaned_data\<close>.
\<close>

definition add_error :: "string \<Rightarrow> ValidationError \<Rightarrow> 'a form_scheme \<Rightarrow> 'a form_scheme" where
  "add_error field error f =
     f\<lparr>form_errors := form_errors f @ [(field, error)],
       cleaned_data := filter (\<lambda>kv. fst kv \<noteq> field) (cleaned_data f)\<rparr>"

subsection \<open>PrescriberWithOrgInvitationForm\<close>

text \<open>
  \<open>_invited_user_exists_error(self, email)\<close>, with the user table as a parameter.
  The leading underscore of the source's name is dropped.
\<close>

definition PrescriberWithOrgInvitationForm_invited_user_exists_error ::
  "user list \<Rightarrow> 'a PrescriberWithOrgInvitationForm_scheme \<Rightarrow> string
     \<Rightarrow> 'a PrescriberWithOrgInvitationForm_scheme" where
  "PrescriberWithOrgInvitationForm_invited_user_exists_error users self email =
     (case first (filter (\<lambda>u. iexact (user_email u) email) users) of
        None \<Rightarrow> self
      | Some u \<Rightarrow>
          if \<not> is_prescriber u then add_error ''email'' NotAPrescriber self
          else
            let user_is_member =
                  exists_qs (filter (\<lambda>m. user_email m = user_email u)
                               (org_active_members (pw_organization self)))
            in if user_is_member then add_error ''email'' AlreadyInOrganization self else self)"

text \<open>
  \<open>clean_email(self)\<close>. \<open>settings.POLE_EMPLOI_EMAIL_SUFFIX\<close> is defined in the base
  settings module, whose source is not available, and is a parameter. The function returns the email and the updated form;
  \<open>self.cleaned_data["email"]\<close> raises \<open>KeyError\<close> on a missing key.
\<close>

definition PrescriberWithOrgInvitationForm_clean_email ::
  "string \<Rightarrow> user list \<Rightarrow> 'a PrescriberWithOrgInvitationForm_scheme
     \<Rightarrow> py_error + (string \<times> 'a PrescriberWithOrgInvitationForm_scheme)" where
  "PrescriberWithOrgInvitationForm_clean_email POLE_EMPLOI_EMAIL_SUFFIX users self =
     (case map_of (cleaned_data self) ''email'' of
        None \<Rightarrow> Inl KeyError
      | Some email \<Rightarrow>
          let self1 = PrescriberWithOrgInvitationForm_invited_user_exists_error users self email
          in if org_kind (pw_organization self1) = PE
                \<and> \<not> endswith email POLE_EMPLOI_EMAIL_SUFFIX
             then Inr (email, add_error ''email'' NotPoleEmploiAddress self1)
             else Inr (email, self1))"

subsection \<open>SiaeStaffInvitationForm\<close>

definition SiaeStaffInvitationForm_invited_user_exists_error ::
  "user list \<Rightarrow> 'a SiaeStaffInvitationForm_scheme \<Rightarrow> string
     \<Rightarrow> 'a SiaeStaffInvitationForm_scheme" where
  "SiaeStaffInvitationForm_invited_user_exists_error users self email =
     (case first (filter (\<lambda>u. iexact (user_email u) email) users) of
        None \<Rightarrow> self
      | Some u \<Rightarrow>
          if \<not> is_siae_staff u then add_error ''email'' NotAnEmployer self
          else
            let user_is_member =
                  exists_qs (filter (\<lambda>m. user_email m = user_email u)
                               (siae_active_members (ss_siae self)))
            in if user_is_member then add_error ''email'' AlreadyInStructure self else self)"

definition SiaeStaffInvitationForm_clean_email ::
  "user list \<Rightarrow> 'a SiaeStaffInvitationForm_scheme
     \<Rightarrow> py_error + (string \<times> 'a SiaeStaffInvitationForm_scheme)" where
  "SiaeStaffInvitationForm_clean_email users self =
     (case map_of (cleaned_data self) ''email'' of
        None \<Rightarrow> Inl KeyError
      | Some email \<Rightarrow>
          Inr (email, SiaeStaffInvitationForm_invited_user_exists_error users self email))"

subsection \<open>LaborInspectorInvitationForm\<close>

definition LaborInspectorInvitationForm_invited_user_exists_error ::
  "user list \<Rightarrow> 'a LaborInspectorInvitationForm_scheme \<Rightarrow> string
     \<Rightarrow> 'a LaborInspectorInvitationForm_scheme" where
  "LaborInspectorInvitationForm_invited_user_exists_error users self email =
     (case first (filter (\<lambda>u. iexact (user_email u) email) users) of
        None \<Rightarrow> self
      | Some u \<Rightarrow>
          if \<not> is_labor_inspector u then add_error ''email'' NotALaborInspector self
          else
            let user_is_member =
                  exists_qs (filter (\<lambda>m. user_email m = user_email u)
                               (institution_active_members (li_institution self)))
            in if user_is_member then add_error ''email'' AlreadyInStructure self else self)"

definition LaborInspectorInvitationForm_clean_email ::
  "user list \<Rightarrow> 'a LaborInspectorInvitationForm_scheme
     \<Rightarrow> py_error + (string \<times> 'a LaborInspectorInvitationForm_scheme)" where
  "LaborInspectorInvitationForm_clean_email users self =
     (case map_of (cleaned_data self) ''email'' of
        None \<Rightarrow> Inl KeyError
      | Some email \<Rightarrow>
          Inr (email, LaborInspectorInvitationForm_invited_user_exists_error users self email))"

subsection \<open>NewUserInvitationForm\<close>

text \<open>
  The invitation a signup form is built from: \<open>isinstance(self.invitation, SiaeStaffInvitation)\<close>
  is a test of the constructor.
\<close>

datatype invitation =
    PrescriberWithOrgInvitation PrescriberOrganization
  | SiaeStaffInvitation Siae
  | LaborInspectorInvitation Institution

text \<open>
  \<open>NewUserInvitationForm.clean(self)\<close>. The result of \<open>super().clean()\<close>
  (\<open>allauth SignupForm.clean\<close>) is a parameter: the errors it raises are
  \<open>OtherError\<close> messages of the framework.
\<close>

definition NewUserInvitationForm_clean ::
  "invitation \<Rightarrow> (string + unit) \<Rightarrow> ValidationError + unit" where
  "NewUserInvitationForm_clean invit super_clean =
     (case invit of
        SiaeStaffInvitation siae \<Rightarrow>
          if \<not> siae_is_active siae then Inl StructureInactive
          else (case super_clean of Inl m \<Rightarrow> Inl (OtherError m) | Inr u \<Rightarrow> Inr u)
      | _ \<Rightarrow> (case super_clean of Inl m \<Rightarrow> Inl (OtherError m) | Inr u \<Rightarrow> Inr u))"

section \<open>Formsets\<close>

subsection \<open>BaseInvitationFormSet.clean\<close>

text \<open>\<open>form.cleaned_data.get("email")\<close>: the email, or \<open>None\<close> when the key is absent.\<close>

definition get_email :: "'a form_scheme \<Rightarrow> string option" where
  "get_email f = map_of (cleaned_data f) ''email''"

text \<open>
  \<open>any(self.errors)\<close>: \<open>self.errors\<close> is the list of the forms' error dicts, and a
  dict is true when it is not empty.
\<close>

definition any_errors :: "'a form_scheme list \<Rightarrow> bool" where
  "any_errors forms = list_ex (\<lambda>f. form_errors f \<noteq> []) forms"

text \<open>
  The loop of \<open>clean\<close> over \<open>self.forms\<close>, with the list \<open>emails\<close> built so far:
  the first email already in the list raises the validation error.
\<close>

fun clean_loop :: "string option list \<Rightarrow> 'a form_scheme list \<Rightarrow> ValidationError + unit" where
  "clean_loop emails [] = Inr ()"
| "clean_loop emails (f # fs) =
     (let email = get_email f
      in if email \<in> set emails then Inl DuplicateEmails
         else clean_loop (emails @ [email]) fs)"

definition BaseInvitationFormSet_clean :: "'a form_scheme list \<Rightarrow> ValidationError + unit" where
  "BaseInvitationFormSet_clean forms =
     (if any_errors forms then Inr () else clean_loop [] forms)"



subsection \<open>The formset factories and the framework's validation of a formset\<close>

text \<open>
  The options a formset class carries. \<open>modelformset_factory\<close> is called in the source
  with \<open>extra\<close> and \<open>max_num\<close> only; the other options take the framework's defaults
  (Django 3.1, the version that generated the migrations): \<open>validate_max = False\<close>,
  \<open>min_num = 0\<close>, \<open>validate_min = False\<close>, and the hard limit
  \<open>absolute_max = max_num + 1000\<close> on the number of forms instantiated.
\<close>

record formset_options =
  extra :: nat
  max_num :: nat
  validate_max :: bool
  min_num :: nat
  validate_min :: bool
  absolute_max :: nat

definition modelformset_factory :: "nat \<Rightarrow> nat \<Rightarrow> formset_options" where
  "modelformset_factory extra_arg max_num_arg =
     \<lparr>extra = extra_arg, max_num = max_num_arg, validate_max = False,
      min_num = 0, validate_min = False, absolute_max = max_num_arg + 1000\<rparr>"

definition PrescriberWithOrgInvitationFormSet :: formset_options where
  "PrescriberWithOrgInvitationFormSet = modelformset_factory 1 30"

definition SiaeStaffInvitationFormSet :: formset_options where
  "SiaeStaffInvitationFormSet = modelformset_factory 1 30"

definition LaborInspectorInvitationFormSet :: formset_options where
  "LaborInspectorInvitationFormSet = modelformset_factory 1 30"

text \<open>
  \<open>Meta.fields\<close> of the three invitation forms.
\<close>

definition form_fields :: "string list" where
  "form_fields = [''first_name'', ''last_name'', ''email'']"

text \<open>
  The submitted value of a field; a field missing from the data is blank. Surrounding
  white space, which the framework strips, is not modelled: a blank value is the empty
  string.
\<close>

definition data_value :: "'a form_scheme \<Rightarrow> string \<Rightarrow> string" where
  "data_value f name = (case map_of (form_data f) name of None \<Rightarrow> [] | Some v \<Rightarrow> v)"

text \<open>
  \<open>Form.has_changed()\<close> for a form with no initial data, as every form of these
  formsets is (their queryset is empty): some field was submitted with a value.
\<close>

definition has_changed :: "'a form_scheme \<Rightarrow> bool" where
  "has_changed f = list_ex (\<lambda>name. data_value f name \<noteq> []) form_fields"

text \<open>
  \<open>BaseFormSet.full_clean\<close>, the part after the forms have been cleaned: the
  non-form errors of a bound formset. \<open>TOTAL_FORMS\<close> is the count the client submitted
  in the management form and \<open>forms\<close> is \<open>self.forms\<close>, which holds
  \<open>total_form_count() = min(TOTAL_FORMS, absolute_max)\<close> forms. The framework checks
  the number of forms against \<open>max_num\<close> only under \<open>validate_max\<close>, and against
  \<open>absolute_max\<close> always; then it calls \<open>self.clean()\<close> and keeps the error raised.
  A form counts as empty when it has not changed.
\<close>

definition non_form_errors :: "formset_options \<Rightarrow> nat \<Rightarrow> 'a form_scheme list \<Rightarrow> ValidationError list" where
  "non_form_errors opts TOTAL_FORMS forms =
     (if (validate_max opts \<and> length forms > max_num opts) \<or> TOTAL_FORMS > absolute_max opts
      then [OtherError ''too_many_forms'']
      else if validate_min opts
              \<and> length forms - length (filter (\<lambda>f. \<not> has_changed f) forms) < min_num opts
      then [OtherError ''too_few_forms'']
      else (case BaseInvitationFormSet_clean forms of Inl e \<Rightarrow> [e] | Inr u \<Rightarrow> []))"

text \<open>
  \<open>BaseFormSet.is_valid\<close>: every form is valid (has no errors) and the formset has no
  non-form errors.
\<close>

definition is_valid :: "formset_options \<Rightarrow> nat \<Rightarrow> 'a form_scheme list \<Rightarrow> bool" where
  "is_valid opts TOTAL_FORMS forms =
     (list_all (\<lambda>f. form_errors f = []) forms \<and> non_form_errors opts TOTAL_FORMS forms = [])"

text \<open>
  Modelled from the spec: the source of the view that receives a batch is missing. The
  spec's section 4.2 says "On success, persists one invitation per tuple"; the
  framework's \<open>formset.save()\<close> saves the forms that have changed. The result is the
  list of forms whose invitation is persisted.
\<close>

definition persisted :: "formset_options \<Rightarrow> nat \<Rightarrow> 'a form_scheme list \<Rightarrow> 'a form_scheme list" where
  "persisted opts TOTAL_FORMS forms =
     (if is_valid opts TOTAL_FORMS forms then filter has_changed forms else [])"

subsection \<open>The framework's construction and cleaning of the forms of a formset\<close>

text \<open>\<open>d[k] = v\<close> on a dict kept as an association list.\<close>

fun dict_set :: "string \<Rightarrow> string \<Rightarrow> (string \<times> string) list \<Rightarrow> (string \<times> string) list" where
  "dict_set k v [] = [(k, v)]"
| "dict_set k v (kv # kvs) = (if fst kv = k then (k, v) # kvs else kv # dict_set k v kvs)"

text \<open>
  \<open>Form._clean_fields\<close> for a required text field with no \<open>clean_<name>\<close> method
  (\<open>first_name\<close>, \<open>last_name\<close>): a blank value is an error of the field, any other
  value is stored in \<open>cleaned_data\<close>. The validators of the field other than
  "required" (maximum length, the syntax of an email address) and the validation of the
  model instance are not modelled.
\<close>

definition clean_plain_field :: "string \<Rightarrow> 'a form_scheme \<Rightarrow> 'a form_scheme" where
  "clean_plain_field name f =
     (if data_value f name = [] then add_error name (OtherError ''required'') f
      else f\<lparr>cleaned_data := dict_set name (data_value f name) (cleaned_data f)\<rparr>)"

text \<open>
  \<open>Form.full_clean\<close> of a bound form with the fields \<open>first_name\<close>, \<open>last_name\<close>,
  \<open>email\<close>, the last with a \<open>clean_email\<close> method, given as a parameter. A form that
  is permitted to be empty and has not changed is valid with empty \<open>cleaned_data\<close>.
  Otherwise the fields are cleaned in order; \<open>clean_email\<close> runs when the email is not
  blank, after the value is stored, and its result is stored again.
\<close>

definition full_clean ::
  "('a form_scheme \<Rightarrow> py_error + (string \<times> 'a form_scheme)) \<Rightarrow> 'a form_scheme
     \<Rightarrow> py_error + 'a form_scheme" where
  "full_clean clean_email f0 =
     (let f = f0\<lparr>form_errors := [], cleaned_data := []\<rparr>
      in if empty_permitted f \<and> \<not> has_changed f then Inr f
         else
           let f2 = clean_plain_field ''last_name'' (clean_plain_field ''first_name'' f)
           in if data_value f2 ''email'' = []
              then Inr (add_error ''email'' (OtherError ''required'') f2)
              else
                (case clean_email
                        (f2\<lparr>cleaned_data :=
                              dict_set ''email'' (data_value f2 ''email'') (cleaned_data f2)\<rparr>) of
                   Inl e \<Rightarrow> Inl e
                 | Inr (v, f3) \<Rightarrow>
                     Inr (f3\<lparr>cleaned_data := dict_set ''email'' v (cleaned_data f3)\<rparr>)))"

fun full_clean_all ::
  "('a form_scheme \<Rightarrow> py_error + (string \<times> 'a form_scheme)) \<Rightarrow> 'a form_scheme list
     \<Rightarrow> py_error + 'a form_scheme list" where
  "full_clean_all clean_email [] = Inr []"
| "full_clean_all clean_email (f # fs) =
     (case full_clean clean_email f of
        Inl e \<Rightarrow> Inl e
      | Inr f' \<Rightarrow>
          (case full_clean_all clean_email fs of
             Inl e \<Rightarrow> Inl e
           | Inr fs' \<Rightarrow> Inr (f' # fs')))"

text \<open>
  \<open>BaseFormSet.forms\<close> of a bound formset: one form per submitted entry, up to
  \<open>absolute_max\<close> of them. \<open>template\<close> carries what \<open>form_kwargs\<close> passes to every
  form (the sender and the target structure). The formsets have no initial form, so form
  \<open>i\<close> is permitted to be empty when \<open>i >= min_num\<close>.
\<close>

definition construct_forms ::
  "formset_options \<Rightarrow> 'a form_scheme \<Rightarrow> (string \<times> string) list list \<Rightarrow> 'a form_scheme list" where
  "construct_forms opts template entries =
     map (\<lambda>(i, d). template\<lparr>form_data := d, form_errors := [], cleaned_data := [],
                              empty_permitted := (min_num opts \<le> i)\<rparr>)
       (enumerate 0 (take (absolute_max opts) entries))"

text \<open>
  \<open>__init__\<close> of \<open>BasePrescriberWithOrgInvitationFormSet\<close>,
  \<open>BaseSiaeStaffInvitationFormSet\<close> and \<open>BaseLaborInspectorInvitationFormSet\<close>: the
  three bodies differ in the model of the empty queryset only. After the framework's
  constructor, \<open>self.forms[0].empty_permitted = False\<close>; indexing an empty list raises
  \<open>IndexError\<close>.
\<close>

definition InvitationFormSet_init :: "'a form_scheme list \<Rightarrow> py_error + 'a form_scheme list" where
  "InvitationFormSet_init forms =
     (case forms of
        [] \<Rightarrow> Inl IndexError
      | f # fs \<Rightarrow> Inr (f\<lparr>empty_permitted := False\<rparr> # fs))"

text \<open>
  A submitted batch, from the construction of the formset to \<open>is_valid()\<close>: the result
  is the validity of the formset and its cleaned forms, or the exception raised on the
  way. The client submits as many entries as its \<open>TOTAL_FORMS\<close> announces.
\<close>

definition submit ::
  "('a form_scheme \<Rightarrow> py_error + (string \<times> 'a form_scheme)) \<Rightarrow> formset_options
     \<Rightarrow> 'a form_scheme \<Rightarrow> (string \<times> string) list list
     \<Rightarrow> py_error + (bool \<times> 'a form_scheme list)" where
  "submit clean_email opts template entries =
     (case InvitationFormSet_init (construct_forms opts template entries) of
        Inl e \<Rightarrow> Inl e
      | Inr forms \<Rightarrow>
          (case full_clean_all clean_email forms of
             Inl e \<Rightarrow> Inl e
           | Inr cleaned \<Rightarrow> Inr (is_valid opts (length entries) cleaned, cleaned)))"

section \<open>The signup of an employer: matcher and finalizer\<close>

text \<open>
  The sources of the forms and views of \<open>itou/www/signup\<close> are missing; only their
  tests are available. The definitions of this section follow the specification.
\<close>

text \<open>
  Modelled from the spec: the organization of section 3 ("identified by a kind enum, an
  optional unique registration number, an authentication email, and a collection of
  members") and its membership ("links a user to exactly one organization ..., with an
  admin flag"). A user is named by the email of the account.
\<close>

record Membership =
  member :: string
  is_admin :: bool

record Organization =
  pk :: nat
  kind :: string
  registration_number :: "string option"
  authentication_email :: string
  memberships :: "Membership list"

text \<open>
  Modelled from the spec: the error kinds of section 7 that the matcher and the
  finalizer raise, and the messages of section 4.1 under which the matcher's errors
  reach the user.
\<close>

datatype signup_error =
  MissingIdentifyingField | AmbiguousMatch | NotFound | ExpiredOrInvalidLink | EmailTaken

fun user_message :: "signup_error \<Rightarrow> string" where
  "user_message MissingIdentifyingField = ''missing identifying field''"
| "user_message AmbiguousMatch = ''your email is shared by multiple structures''"
| "user_message NotFound = ''your registration number or email are unknown to us''"
| "user_message ExpiredOrInvalidLink = ''invalid or expired''"
| "user_message EmailTaken = ''another user already uses this email address''"

text \<open>
  Modelled from the spec: the organizations that a registration number and a kind, or
  an email and a kind, match. An input that was not supplied matches nothing.
\<close>

definition registration_number_matches ::
  "Organization list \<Rightarrow> string option \<Rightarrow> string \<Rightarrow> Organization list" where
  "registration_number_matches orgs number k =
     (case number of
        None \<Rightarrow> []
      | Some n \<Rightarrow> filter (\<lambda>org. registration_number org = Some n \<and> kind org = k) orgs)"

definition email_matches ::
  "Organization list \<Rightarrow> string option \<Rightarrow> string \<Rightarrow> Organization list" where
  "email_matches orgs email k =
     (case email of
        None \<Rightarrow> []
      | Some e \<Rightarrow> filter (\<lambda>org. authentication_email org = e \<and> kind org = k) orgs)"

text \<open>
  Modelled from the spec: the matcher of section 4.1. "At least one of
  email/registration-number must be present"; then, in order: the registration number
  and kind match exactly one organization, select it; else the email and kind match
  exactly one, select it; else the email and kind match more than one, AmbiguousMatch;
  else NotFound.
\<close>

definition Matcher ::
  "Organization list \<Rightarrow> string option \<Rightarrow> string option \<Rightarrow> string
     \<Rightarrow> signup_error + Organization" where
  "Matcher orgs email number k =
     (if email = None \<and> number = None then Inl MissingIdentifyingField
      else
        (case registration_number_matches orgs number k of
           [org] \<Rightarrow> Inr org
         | _ \<Rightarrow>
             (case email_matches orgs email k of
                [] \<Rightarrow> Inl NotFound
              | [org] \<Rightarrow> Inr org
              | _ \<Rightarrow> Inl AmbiguousMatch)))"

text \<open>
  Modelled from the spec: the state the finalizer works on, the organizations and the
  outbox of notifications. A notification to the admins names its recipients and the new
  member.
\<close>

record Notification =
  recipients :: "string list"
  new_member :: string

record Platform =
  organizations :: "Organization list"
  outbox :: "Notification list"

text \<open>
  Modelled from the spec: the finalizer of section 4.3 for a signup through a magic
  link. The check of the link itself is a parameter (\<open>link_valid\<close>); the organization
  is the one the link names. The new member is admin "only if the organization had zero
  prior members"; one notification goes to the existing admin members "when prior
  members existed, zero when none existed".
\<close>

definition finalize_signup ::
  "Platform \<Rightarrow> bool \<Rightarrow> nat \<Rightarrow> string \<Rightarrow> signup_error + Platform" where
  "finalize_signup st link_valid target email =
     (if \<not> link_valid then Inl ExpiredOrInvalidLink
      else
        (case filter (\<lambda>org. pk org = target) (organizations st) of
           [] \<Rightarrow> Inl ExpiredOrInvalidLink
         | org # _ \<Rightarrow>
             let prior = memberships org;
                 m = \<lparr>member = email, is_admin = (prior = [])\<rparr>;
                 notes = (if prior = [] then []
                          else [\<lparr>recipients = map member (filter is_admin prior),
                                 new_member = email\<rparr>])
             in Inr \<lparr>organizations =
                       map (\<lambda>x. if pk x = target then x\<lparr>memberships := memberships x @ [m]\<rparr>
                                 else x)
                         (organizations st),
                     outbox = outbox st @ notes\<rparr>))"




section \<open>Example data\<close>

text \<open>Concrete users, structures and forms at which the theorems below are evaluated.\<close>

definition prescriber_user :: user where
  "prescriber_user =
     \<lparr>user_email = ''ann@pole-emploi.fr'', is_job_seeker = False, is_prescriber = True,
      is_siae_staff = False, is_labor_inspector = False\<rparr>"

definition employer_user :: user where
  "employer_user =
     \<lparr>user_email = ''bob@siae.com'', is_job_seeker = False, is_prescriber = False,
      is_siae_staff = True, is_labor_inspector = False\<rparr>"

definition inspector_user :: user where
  "inspector_user =
     \<lparr>user_email = ''eve@ddets.fr'', is_job_seeker = False, is_prescriber = False,
      is_siae_staff = False, is_labor_inspector = True\<rparr>"

text \<open>A form with no error whose cleaned data hold the given email.\<close>

definition clean_form :: "string \<Rightarrow> form" where
  "clean_form email =
     \<lparr>form_data = [(''first_name'', ''Jo''), (''last_name'', ''Doe''), (''email'', email)],
      form_errors = [],
      cleaned_data = [(''first_name'', ''Jo''), (''last_name'', ''Doe''), (''email'', email)],
      empty_permitted = True\<rparr>"


text \<open>Invitation forms of the three kinds, before \<open>clean_email\<close> runs.\<close>

definition pe_organization :: PrescriberOrganization where
  "pe_organization = \<lparr>org_kind = PE, org_active_members = [prescriber_user]\<rparr>"

definition cap_emploi_organization :: PrescriberOrganization where
  "cap_emploi_organization = \<lparr>org_kind = CAP_EMPLOI, org_active_members = []\<rparr>"

definition prescriber_form :: "PrescriberOrganization \<Rightarrow> string \<Rightarrow> PrescriberWithOrgInvitationForm" where
  "prescriber_form org email =
     \<lparr>form_data = [(''first_name'', ''Jo''), (''last_name'', ''Doe''), (''email'', email)],
      form_errors = [],
      cleaned_data = [(''first_name'', ''Jo''), (''last_name'', ''Doe''), (''email'', email)],
      empty_permitted = False,
      pw_sender = prescriber_user, pw_organization = org\<rparr>"

definition siae_form :: "Siae \<Rightarrow> string \<Rightarrow> SiaeStaffInvitationForm" where
  "siae_form siae email =
     \<lparr>form_data = [(''first_name'', ''Jo''), (''last_name'', ''Doe''), (''email'', email)],
      form_errors = [],
      cleaned_data = [(''first_name'', ''Jo''), (''last_name'', ''Doe''), (''email'', email)],
      empty_permitted = False,
      ss_sender = employer_user, ss_siae = siae\<rparr>"

definition inspector_form :: "Institution \<Rightarrow> string \<Rightarrow> LaborInspectorInvitationForm" where
  "inspector_form inst email =
     \<lparr>form_data = [(''first_name'', ''Jo''), (''last_name'', ''Doe''), (''email'', email)],
      form_errors = [],
      cleaned_data = [(''first_name'', ''Jo''), (''last_name'', ''Doe''), (''email'', email)],
      empty_permitted = False,
      li_sender = inspector_user, li_institution = inst\<rparr>"

text \<open>A blank extra form after cleaning: nothing submitted, no error, no cleaned data.\<close>

definition blank_form :: form where
  "blank_form =
     \<lparr>form_data = [], form_errors = [], cleaned_data = [], empty_permitted = True\<rparr>"

text \<open>
  A batch of \<open>n\<close> entries with distinct emails (\<open>a@x.fr\<close>, \<open>aa@x.fr\<close>, ...) and the
  template of a SIAE staff invitation form.
\<close>

definition entry :: "nat \<Rightarrow> (string \<times> string) list" where
  "entry n = [(''first_name'', ''Jo''), (''last_name'', ''Doe''),
              (''email'', replicate (Suc n) CHR ''a'' @ ''@x.fr'')]"

definition batch :: "nat \<Rightarrow> (string \<times> string) list list" where
  "batch n = map entry [0..<n]"

definition siae_template :: SiaeStaffInvitationForm where
  "siae_template =
     \<lparr>form_data = [], form_errors = [], cleaned_data = [], empty_permitted = True,
      ss_sender = employer_user,
      ss_siae = \<lparr>siae_is_active = True, siae_active_members = [employer_user]\<rparr>\<rparr>"

definition prescriber_template :: PrescriberWithOrgInvitationForm where
  "prescriber_template =
     \<lparr>form_data = [], form_errors = [], cleaned_data = [], empty_permitted = True,
      pw_sender = prescriber_user, pw_organization = cap_emploi_organization\<rparr>"

definition inspector_template :: LaborInspectorInvitationForm where
  "inspector_template =
     \<lparr>form_data = [], form_errors = [], cleaned_data = [], empty_permitted = True,
      li_sender = inspector_user,
      li_institution = \<lparr>institution_active_members = [inspector_user]\<rparr>\<rparr>"

text \<open>
  The organizations of the test \<open>test_siae_signup_story_of_david\<close>: two of kind ACI
  share the authentication email, a third of the same kind has the registration number
  submitted and one member, its admin.
\<close>

definition david_organizations :: "Organization list" where
  "david_organizations =
     [\<lparr>pk = 1, kind = ''ACI'', registration_number = Some ''11111111111111'',
       authentication_email = ''david.doe@siae.com'', memberships = []\<rparr>,
      \<lparr>pk = 2, kind = ''ACI'', registration_number = Some ''22222222222222'',
       authentication_email = ''david.doe@siae.com'', memberships = []\<rparr>,
      \<lparr>pk = 3, kind = ''ACI'', registration_number = Some ''12345678901234'',
       authentication_email = ''contact@siae3.com'',
       memberships = [\<lparr>member = ''admin@siae3.com'', is_admin = True\<rparr>]\<rparr>]"


section \<open>Theorems\<close>

section \<open>The matcher\<close>

text \<open>
  C1. When the registration number and the kind match exactly one organization, the
  matcher selects it, whatever the email is and whatever organizations the email matches.
\<close>

theorem Matcher_registration_number_priority:
  "registration_number_matches orgs number k = [org] \<Longrightarrow> Matcher orgs email number k = Inr org"
  by (cases number) (auto simp: Matcher_def registration_number_matches_def)

theorem Matcher_registration_number_priority_witness:
  "email_matches david_organizations (Some ''david.doe@siae.com'') ''ACI''
     = [david_organizations ! 0, david_organizations ! 1]
   \<and> Matcher david_organizations (Some ''david.doe@siae.com'') (Some ''12345678901234'') ''ACI''
     = Inr (david_organizations ! 2)"
proof -
  have h: "registration_number_matches david_organizations (Some ''12345678901234'') ''ACI''
             = [david_organizations ! 2]"
    by (simp add: registration_number_matches_def david_organizations_def)
  have e: "email_matches david_organizations (Some ''david.doe@siae.com'') ''ACI''
             = [david_organizations ! 0, david_organizations ! 1]"
    by (simp add: email_matches_def david_organizations_def)
  show ?thesis
    using e Matcher_registration_number_priority [OF h, of "Some ''david.doe@siae.com''"]
    by blast
qed

text \<open>
  C4. When the email and the kind match two or more organizations and the registration
  number and the kind match none, the matcher selects no organization: it fails with
  AmbiguousMatch, which reaches the user as "your email is shared by multiple structures".
\<close>

theorem Matcher_ambiguous_email:
  "2 \<le> length (email_matches orgs email k) \<Longrightarrow> registration_number_matches orgs number k = []
   \<Longrightarrow> Matcher orgs email number k = Inl AmbiguousMatch
       \<and> user_message AmbiguousMatch = ''your email is shared by multiple structures''
       \<and> (\<forall>org. Matcher orgs email number k \<noteq> Inr org)"
proof -
  assume len: "2 \<le> length (email_matches orgs email k)"
    and none: "registration_number_matches orgs number k = []"
  obtain a b rest where m: "email_matches orgs email k = a # b # rest"
  proof (cases "email_matches orgs email k")
    case Nil
    then show ?thesis using len by simp
  next
    case (Cons a tail)
    then obtain b rest where "tail = b # rest"
      using len by (cases tail) auto
    then show ?thesis using Cons that by simp
  qed
  have "email \<noteq> None"
    using m by (cases email) (auto simp: email_matches_def)
  then have "Matcher orgs email number k = Inl AmbiguousMatch"
    using m none by (simp add: Matcher_def)
  then show ?thesis by simp
qed

theorem Matcher_ambiguous_email_witness:
  "Matcher (take 2 david_organizations) (Some ''david.doe@siae.com'') (Some ''12345678901234'')
       ''ACI'' = Inl AmbiguousMatch
   \<and> user_message AmbiguousMatch = ''your email is shared by multiple structures''"
proof -
  have e: "2 \<le> length (email_matches (take 2 david_organizations)
                          (Some ''david.doe@siae.com'') ''ACI'')"
    by (simp add: email_matches_def david_organizations_def)
  have n: "registration_number_matches (take 2 david_organizations)
             (Some ''12345678901234'') ''ACI'' = []"
    by (simp add: registration_number_matches_def david_organizations_def)
  show ?thesis
    using Matcher_ambiguous_email [OF e n] by blast
qed

section \<open>The finalizer of a signup through a magic link\<close>

lemma total_memberships_added:
  assumes "distinct (map pk orgs)" "org \<in> set orgs" "pk org = target"
  shows "(\<Sum>x\<leftarrow>map (\<lambda>x. if pk x = target then x\<lparr>memberships := memberships x @ [m]\<rparr> else x) orgs.
            length (memberships x))
         = (\<Sum>x\<leftarrow>orgs. length (memberships x)) + 1"
  using assms
proof (induction orgs)
  case Nil
  then show ?case by simp
next
  case (Cons a orgs)
  show ?case
  proof (cases "pk a = target")
    case True
    then have "\<forall>x \<in> set orgs. pk x \<noteq> target"
      using Cons.prems(1) by (auto simp: image_iff)
    then have "map (\<lambda>x. if pk x = target then x\<lparr>memberships := memberships x @ [m]\<rparr> else x) orgs = orgs"
      by (simp add: map_idI)
    then show ?thesis using True by simp
  next
    case False
    then have "org \<in> set orgs" using Cons.prems by auto
    then show ?thesis using Cons.IH Cons.prems(1,3) False by simp
  qed
qed

lemma first_match_unique:
  assumes "distinct (map pk orgs)" "filter (\<lambda>org. pk org = target) orgs = org # rest"
  shows "org \<in> set orgs \<and> pk org = target \<and> (\<forall>x \<in> set orgs. pk x = target \<longrightarrow> x = org)"
proof -
  have mem: "org \<in> set (filter (\<lambda>org. pk org = target) orgs)"
    using assms(2) by simp
  then have a: "org \<in> set orgs" "pk org = target" by auto
  have inj: "inj_on pk (set orgs)"
    using assms(1) by (simp add: distinct_map)
  have "x = org" if "x \<in> set orgs" "pk x = target" for x
    using that a inj_onD [OF inj, of x org] by simp
  then show ?thesis using a by blast
qed



lemma finalize_signup_Inr:
  assumes f: "finalize_signup st link_valid target email = Inr st'"
  shows "link_valid
     \<and> (\<exists>org rest. filter (\<lambda>org. pk org = target) (organizations st) = org # rest
        \<and> st' = \<lparr>organizations =
                     map (\<lambda>x. if pk x = target
                               then x\<lparr>memberships := memberships x
                                     @ [\<lparr>member = email, is_admin = (memberships org = [])\<rparr>]\<rparr>
                               else x)
                       (organizations st),
                   outbox = outbox st @ (if memberships org = [] then []
                      else [\<lparr>recipients = map member (filter is_admin (memberships org)),
                             new_member = email\<rparr>])\<rparr>)"
proof (cases link_valid)
  case False
  then show ?thesis using f by (simp add: finalize_signup_def)
next
  case True
  show ?thesis
  proof (cases "filter (\<lambda>org. pk org = target) (organizations st)")
    case Nil
    then show ?thesis using f True by (simp add: finalize_signup_def)
  next
    case (Cons org rest)
    then show ?thesis using f True by (simp add: finalize_signup_def Let_def)
  qed
qed


text \<open>
  C3. A signup completed through a magic link (the organizations having distinct keys)
  went through a valid link and touched exactly one organization, the one the link
  names: that organization gained one membership, the new member's, every other
  organization is unchanged (whatever its registration number), and the total number of
  memberships grew by one. The new member is admin if and only if the organization had
  no member before, and one notification was sent if it had members, none otherwise.
\<close>

theorem finalize_signup_effects:
  assumes d: "distinct (map pk (organizations st))"
    and f: "finalize_signup st link_valid target email = Inr st'"
  shows "link_valid
     \<and> (\<exists>org \<in> set (organizations st).
          pk org = target
        \<and> (\<forall>x \<in> set (organizations st). pk x = target \<longrightarrow> x = org)
        \<and> organizations st'
            = map (\<lambda>x. if x = org
                        then org\<lparr>memberships := memberships org
                                    @ [\<lparr>member = email, is_admin = (memberships org = [])\<rparr>]\<rparr>
                        else x)
                (organizations st)
        \<and> (\<Sum>x\<leftarrow>organizations st'. length (memberships x))
            = (\<Sum>x\<leftarrow>organizations st. length (memberships x)) + 1
        \<and> length (outbox st') = length (outbox st) + (if memberships org = [] then 0 else 1))"
proof -
  obtain org rest where lv: link_valid
    and fl: "filter (\<lambda>org. pk org = target) (organizations st) = org # rest"
    and st': "st' = \<lparr>organizations =
                     map (\<lambda>x. if pk x = target
                               then x\<lparr>memberships := memberships x
                                     @ [\<lparr>member = email, is_admin = (memberships org = [])\<rparr>]\<rparr>
                               else x)
                       (organizations st),
                   outbox = outbox st @ (if memberships org = [] then []
                      else [\<lparr>recipients = map member (filter is_admin (memberships org)),
                             new_member = email\<rparr>])\<rparr>"
    using finalize_signup_Inr [OF f] by blast
  let ?m = "\<lparr>member = email, is_admin = (memberships org = [])\<rparr>"
  have u1: "org \<in> set (organizations st)" and u2: "pk org = target"
    and u3: "\<forall>x \<in> set (organizations st). pk x = target \<longrightarrow> x = org"
    using first_match_unique [OF d fl] by simp_all
  have m: "map (\<lambda>x. if pk x = target then x\<lparr>memberships := memberships x @ [?m]\<rparr> else x)
             (organizations st)
           = map (\<lambda>x. if x = org then org\<lparr>memberships := memberships org @ [?m]\<rparr> else x)
               (organizations st)"
  proof (rule map_cong [OF refl])
    fix x assume "x \<in> set (organizations st)"
    then have "pk x = target \<longleftrightarrow> x = org" using u2 u3 by auto
    then show "(if pk x = target then x\<lparr>memberships := memberships x @ [?m]\<rparr> else x)
               = (if x = org then org\<lparr>memberships := memberships org @ [?m]\<rparr> else x)"
      by simp
  qed
  have e: "organizations st'
            = map (\<lambda>x. if x = org then org\<lparr>memberships := memberships org @ [?m]\<rparr> else x)
                (organizations st)"
    using m by (simp add: st')
  have s: "(\<Sum>x\<leftarrow>organizations st'. length (memberships x))
            = (\<Sum>x\<leftarrow>organizations st. length (memberships x)) + 1"
    using total_memberships_added [OF d u1 u2, of ?m] by (simp add: st')
  have o: "length (outbox st') = length (outbox st) + (if memberships org = [] then 0 else 1)"
    by (simp add: st')
  have "pk org = target
        \<and> (\<forall>x \<in> set (organizations st). pk x = target \<longrightarrow> x = org)
        \<and> organizations st'
            = map (\<lambda>x. if x = org then org\<lparr>memberships := memberships org @ [?m]\<rparr> else x)
                (organizations st)
        \<and> (\<Sum>x\<leftarrow>organizations st'. length (memberships x))
            = (\<Sum>x\<leftarrow>organizations st. length (memberships x)) + 1
        \<and> length (outbox st') = length (outbox st) + (if memberships org = [] then 0 else 1)"
    using u2 u3 e s o by simp
  note body = this
  show ?thesis
  proof (intro conjI)
    show link_valid by (rule lv)
    show "\<exists>org \<in> set (organizations st).
          pk org = target
        \<and> (\<forall>x \<in> set (organizations st). pk x = target \<longrightarrow> x = org)
        \<and> organizations st'
            = map (\<lambda>x. if x = org
                        then org\<lparr>memberships := memberships org
                                    @ [\<lparr>member = email, is_admin = (memberships org = [])\<rparr>]\<rparr>
                        else x)
                (organizations st)
        \<and> (\<Sum>x\<leftarrow>organizations st'. length (memberships x))
            = (\<Sum>x\<leftarrow>organizations st. length (memberships x)) + 1
        \<and> length (outbox st') = length (outbox st) + (if memberships org = [] then 0 else 1)"
      by (rule bexI [where x = org]) (rule body, rule u1)
  qed
qed

theorem finalize_signup_effects_witness:
  "memberships (organizations (projr (finalize_signup
       \<lparr>organizations = david_organizations, outbox = []\<rparr> True 3 ''david.doe@siae.com'')) ! 2)
     = [\<lparr>member = ''admin@siae3.com'', is_admin = True\<rparr>,
        \<lparr>member = ''david.doe@siae.com'', is_admin = False\<rparr>]
   \<and> (\<Sum>x\<leftarrow>organizations (projr (finalize_signup
           \<lparr>organizations = david_organizations, outbox = []\<rparr> True 3 ''david.doe@siae.com'')).
         length (memberships x))
     = (\<Sum>x\<leftarrow>david_organizations. length (memberships x)) + 1
   \<and> length (outbox (projr (finalize_signup
         \<lparr>organizations = david_organizations, outbox = []\<rparr> True 3 ''david.doe@siae.com''))) = 1"
proof -
  let ?st = "\<lparr>organizations = david_organizations, outbox = []\<rparr>"
  let ?r = "finalize_signup ?st True 3 ''david.doe@siae.com''"
  have d: "distinct (map pk (organizations ?st))"
    by (simp add: david_organizations_def)
  have f: "?r = Inr (projr ?r)"
    by (simp add: finalize_signup_def david_organizations_def)
  have m: "memberships (organizations (projr ?r) ! 2)
           = [\<lparr>member = ''admin@siae3.com'', is_admin = True\<rparr>,
              \<lparr>member = ''david.doe@siae.com'', is_admin = False\<rparr>]"
    by (simp add: finalize_signup_def david_organizations_def)
  have o: "length (outbox (projr ?r)) = 1"
    by (simp add: finalize_signup_def david_organizations_def)
  obtain org where
    "(\<Sum>x\<leftarrow>organizations (projr ?r). length (memberships x))
       = (\<Sum>x\<leftarrow>organizations ?st. length (memberships x)) + 1"
    using finalize_signup_effects [OF d f] by blast
  then show ?thesis using m o by simp
qed

section \<open>Emails are compared without regard to letter case\<close>

lemma upper_char_idem: "upper_char (upper_char c) = upper_char c"
  by (cases c) (auto simp: upper_char_def Let_def)






section \<open>Duplicate emails in a batch\<close>











text \<open>
  Two blank extra forms have no email at all; \<open>cleaned_data.get\<close> gives \<open>None\<close> for
  both, and the loop of \<open>clean\<close> treats the second as a repetition of the first.
\<close>

lemma clean_two_blank_forms:
  "BaseInvitationFormSet_clean [clean_form ''a@b.fr'', blank_form, blank_form]
     = Inl DuplicateEmails"
  by (simp add: BaseInvitationFormSet_clean_def any_errors_def get_email_def clean_form_def
        blank_form_def)


section \<open>An invited email that belongs to a user\<close>

lemma form_errors_add_error: "form_errors (add_error field e f) = form_errors f @ [(field, e)]"
  by (simp add: add_error_def)

text \<open>
  C6. In each of the three invitation forms, validating an invited email adds an error
  if and only if a user with that email (compared without regard to case; the first such
  row of the table) exists and that user either lacks the role of the target structure
  or is an active member of it. When no user has the email, the form is left as it was.
\<close>

theorem invited_user_exists_error_iff:
  "(form_errors (PrescriberWithOrgInvitationForm_invited_user_exists_error users pf email)
      \<noteq> form_errors pf
    \<longleftrightarrow> (\<exists>u. first (filter (\<lambda>u. iexact (user_email u) email) users) = Some u
            \<and> (\<not> is_prescriber u
               \<or> (\<exists>m \<in> set (org_active_members (pw_organization pf)).
                     user_email m = user_email u))))
   \<and> (form_errors (SiaeStaffInvitationForm_invited_user_exists_error users sf email)
      \<noteq> form_errors sf
    \<longleftrightarrow> (\<exists>u. first (filter (\<lambda>u. iexact (user_email u) email) users) = Some u
            \<and> (\<not> is_siae_staff u
               \<or> (\<exists>m \<in> set (siae_active_members (ss_siae sf)).
                     user_email m = user_email u))))
   \<and> (form_errors (LaborInspectorInvitationForm_invited_user_exists_error users lf email)
      \<noteq> form_errors lf
    \<longleftrightarrow> (\<exists>u. first (filter (\<lambda>u. iexact (user_email u) email) users) = Some u
            \<and> (\<not> is_labor_inspector u
               \<or> (\<exists>m \<in> set (institution_active_members (li_institution lf)).
                     user_email m = user_email u))))
   \<and> ((\<forall>u \<in> set users. \<not> iexact (user_email u) email)
    \<longrightarrow> PrescriberWithOrgInvitationForm_invited_user_exists_error users pf email = pf
        \<and> SiaeStaffInvitationForm_invited_user_exists_error users sf email = sf
        \<and> LaborInspectorInvitationForm_invited_user_exists_error users lf email = lf)"
proof -
  have none: "first (filter (\<lambda>u. iexact (user_email u) email) users) = None"
    if "\<forall>u \<in> set users. \<not> iexact (user_email u) email"
  proof -
    have "filter (\<lambda>u. iexact (user_email u) email) users = []"
      using that by (simp add: filter_empty_conv)
    then show ?thesis by simp
  qed
  have p: "form_errors (PrescriberWithOrgInvitationForm_invited_user_exists_error users pf email)
             \<noteq> form_errors pf
           \<longleftrightarrow> (\<exists>u. first (filter (\<lambda>u. iexact (user_email u) email) users) = Some u
                   \<and> (\<not> is_prescriber u
                      \<or> (\<exists>m \<in> set (org_active_members (pw_organization pf)).
                            user_email m = user_email u)))"
    by (auto simp: PrescriberWithOrgInvitationForm_invited_user_exists_error_def
          form_errors_add_error exists_qs_def filter_empty_conv Let_def split: option.splits)
  have s: "form_errors (SiaeStaffInvitationForm_invited_user_exists_error users sf email)
             \<noteq> form_errors sf
           \<longleftrightarrow> (\<exists>u. first (filter (\<lambda>u. iexact (user_email u) email) users) = Some u
                   \<and> (\<not> is_siae_staff u
                      \<or> (\<exists>m \<in> set (siae_active_members (ss_siae sf)).
                            user_email m = user_email u)))"
    by (auto simp: SiaeStaffInvitationForm_invited_user_exists_error_def
          form_errors_add_error exists_qs_def filter_empty_conv Let_def split: option.splits)
  have l: "form_errors (LaborInspectorInvitationForm_invited_user_exists_error users lf email)
             \<noteq> form_errors lf
           \<longleftrightarrow> (\<exists>u. first (filter (\<lambda>u. iexact (user_email u) email) users) = Some u
                   \<and> (\<not> is_labor_inspector u
                      \<or> (\<exists>m \<in> set (institution_active_members (li_institution lf)).
                            user_email m = user_email u)))"
    by (auto simp: LaborInspectorInvitationForm_invited_user_exists_error_def
          form_errors_add_error exists_qs_def filter_empty_conv Let_def split: option.splits)
  have n: "PrescriberWithOrgInvitationForm_invited_user_exists_error users pf email = pf
        \<and> SiaeStaffInvitationForm_invited_user_exists_error users sf email = sf
        \<and> LaborInspectorInvitationForm_invited_user_exists_error users lf email = lf"
    if "\<forall>u \<in> set users. \<not> iexact (user_email u) email"
    using none [OF that]
    by (simp add: PrescriberWithOrgInvitationForm_invited_user_exists_error_def
          SiaeStaffInvitationForm_invited_user_exists_error_def
          LaborInspectorInvitationForm_invited_user_exists_error_def)
  show ?thesis using p s l n by blast
qed

theorem invited_user_exists_error_iff_witness:
  "form_errors (PrescriberWithOrgInvitationForm_invited_user_exists_error
                  [prescriber_user, employer_user, inspector_user]
                  (prescriber_form pe_organization ''ANN@pole-emploi.fr'') ''ANN@pole-emploi.fr'')
     \<noteq> form_errors (prescriber_form pe_organization ''ANN@pole-emploi.fr'')
   \<and> form_errors (SiaeStaffInvitationForm_invited_user_exists_error
                  [prescriber_user, employer_user, inspector_user]
                  (siae_form \<lparr>siae_is_active = True, siae_active_members = []\<rparr>
                     ''ANN@pole-emploi.fr'') ''ANN@pole-emploi.fr'')
     \<noteq> form_errors (siae_form \<lparr>siae_is_active = True, siae_active_members = []\<rparr>
                      ''ANN@pole-emploi.fr'')
   \<and> form_errors (LaborInspectorInvitationForm_invited_user_exists_error
                  [prescriber_user, employer_user, inspector_user]
                  (inspector_form \<lparr>institution_active_members = []\<rparr>
                     ''ANN@pole-emploi.fr'') ''ANN@pole-emploi.fr'')
     \<noteq> form_errors (inspector_form \<lparr>institution_active_members = []\<rparr>
                      ''ANN@pole-emploi.fr'')
   \<and> PrescriberWithOrgInvitationForm_invited_user_exists_error
        [prescriber_user, employer_user, inspector_user]
        (prescriber_form pe_organization ''new@pole-emploi.fr'') ''new@pole-emploi.fr''
     = prescriber_form pe_organization ''new@pole-emploi.fr''"
proof -
  let ?users = "[prescriber_user, employer_user, inspector_user]"
  let ?e = "''ANN@pole-emploi.fr''"
  let ?n = "''new@pole-emploi.fr''"
  let ?pf = "prescriber_form pe_organization ?e"
  let ?sf = "siae_form \<lparr>siae_is_active = True, siae_active_members = []\<rparr> ?e"
  let ?lf = "inspector_form \<lparr>institution_active_members = []\<rparr> ?e"
  let ?pn = "prescriber_form pe_organization ?n"
  have f: "first (filter (\<lambda>u. iexact (user_email u) ?e) ?users) = Some prescriber_user"
    by (simp add: iexact_def upper_char_def prescriber_user_def employer_user_def
          inspector_user_def)
  have m: "\<exists>m \<in> set (org_active_members (pw_organization ?pf)).
             user_email m = user_email prescriber_user"
    by (simp add: prescriber_form_def pe_organization_def)
  have r: "\<not> is_siae_staff prescriber_user" "\<not> is_labor_inspector prescriber_user"
    by (simp_all add: prescriber_user_def)
  have a: "\<forall>u \<in> set ?users. \<not> iexact (user_email u) ?n"
    by (simp add: iexact_def upper_char_def prescriber_user_def employer_user_def
          inspector_user_def)
  show ?thesis
    using invited_user_exists_error_iff [of ?users ?pf ?e ?sf ?lf]
          invited_user_exists_error_iff [of ?users ?pn ?n ?sf ?lf] f m r a
    by blast
qed


section \<open>Signup through an invitation: the inactive-structure check\<close>

text \<open>
  C7. Completing signup through an invitation fails with the inactive-structure
  validation error if and only if the invitation is a SIAE staff invitation whose
  structure is not active; the signups of prescriber and labor inspector invitations
  never raise it, whatever \<open>SignupForm.clean\<close> itself does.
\<close>

theorem NewUserInvitationForm_clean_inactive_iff:
  "NewUserInvitationForm_clean invit super_clean = Inl StructureInactive
     \<longleftrightarrow> (\<exists>siae. invit = SiaeStaffInvitation siae \<and> \<not> siae_is_active siae)"
  by (cases invit; cases super_clean) (auto simp: NewUserInvitationForm_clean_def)

theorem NewUserInvitationForm_clean_inactive_iff_witness:
  "NewUserInvitationForm_clean
     (SiaeStaffInvitation \<lparr>siae_is_active = False, siae_active_members = []\<rparr>) (Inr ())
     = Inl StructureInactive
   \<and> NewUserInvitationForm_clean
       (SiaeStaffInvitation \<lparr>siae_is_active = True, siae_active_members = []\<rparr>) (Inr ())
     \<noteq> Inl StructureInactive
   \<and> NewUserInvitationForm_clean
       (LaborInspectorInvitation \<lparr>institution_active_members = []\<rparr>) (Inr ())
     \<noteq> Inl StructureInactive"
proof -
  have a: "\<exists>siae. SiaeStaffInvitation \<lparr>siae_is_active = False, siae_active_members = []\<rparr>
                    = SiaeStaffInvitation siae \<and> \<not> siae_is_active siae"
    by simp
  have b: "\<not> (\<exists>siae. SiaeStaffInvitation \<lparr>siae_is_active = True, siae_active_members = []\<rparr>
                    = SiaeStaffInvitation siae \<and> \<not> siae_is_active siae)"
    by auto
  have c: "\<not> (\<exists>siae. LaborInspectorInvitation \<lparr>institution_active_members = []\<rparr>
                    = SiaeStaffInvitation siae \<and> \<not> siae_is_active siae)"
    by simp
  show ?thesis
    using a b c
      NewUserInvitationForm_clean_inactive_iff
        [of "SiaeStaffInvitation \<lparr>siae_is_active = False, siae_active_members = []\<rparr>" "Inr ()"]
      NewUserInvitationForm_clean_inactive_iff
        [of "SiaeStaffInvitation \<lparr>siae_is_active = True, siae_active_members = []\<rparr>" "Inr ()"]
      NewUserInvitationForm_clean_inactive_iff
        [of "LaborInspectorInvitation \<lparr>institution_active_members = []\<rparr>" "Inr ()"]
    by blast
qed

section \<open>The Pole emploi suffix of an invited email\<close>

lemma endswith_iff_suffix: "endswith s suf \<longleftrightarrow> suffix suf s"
  unfolding endswith_def
  by (metis suffix_drop suffix_length_le suffix_def append_eq_conv_conj length_append
        diff_add_inverse2)

lemma pw_organization_add_error: "pw_organization (add_error field e f) = pw_organization f"
  by (simp add: add_error_def)

lemma pw_organization_invited_user_exists_error:
  "pw_organization (PrescriberWithOrgInvitationForm_invited_user_exists_error users self email)
     = pw_organization self"
  by (simp add: PrescriberWithOrgInvitationForm_invited_user_exists_error_def
        pw_organization_add_error Let_def split: option.splits)

text \<open>
  C9. When the target prescriber organization is of kind PE and the invited email does
  not end with the configured Pole emploi suffix, \<open>clean_email\<close> adds the error "the
  email address must be a Pole emploi address" to the email field, after the errors of
  the check of existing users. For an organization of any other kind the result is that
  of the check of existing users alone, whatever the suffix is.
\<close>

theorem PrescriberWithOrgInvitationForm_clean_email_suffix:
  "(map_of (cleaned_data self) ''email'' = Some email
      \<and> org_kind (pw_organization self) = PE \<and> \<not> suffix sfx email
    \<longrightarrow> PrescriberWithOrgInvitationForm_clean_email sfx users self
          = Inr (email,
                 add_error ''email'' NotPoleEmploiAddress
                   (PrescriberWithOrgInvitationForm_invited_user_exists_error users self email))
        \<and> (''email'', NotPoleEmploiAddress)
            \<in> set (form_errors (snd (projr
                  (PrescriberWithOrgInvitationForm_clean_email sfx users self)))))
   \<and> (map_of (cleaned_data self) ''email'' = Some email
      \<and> org_kind (pw_organization self) \<noteq> PE
    \<longrightarrow> PrescriberWithOrgInvitationForm_clean_email sfx users self
          = Inr (email,
                 PrescriberWithOrgInvitationForm_invited_user_exists_error users self email))"
  by (simp add: PrescriberWithOrgInvitationForm_clean_email_def Let_def
        pw_organization_invited_user_exists_error endswith_iff_suffix form_errors_add_error)

theorem PrescriberWithOrgInvitationForm_clean_email_suffix_witness:
  "PrescriberWithOrgInvitationForm_clean_email ''@pole-emploi.fr'' []
     (prescriber_form pe_organization ''jo@gmail.com'')
     = Inr (''jo@gmail.com'',
            add_error ''email'' NotPoleEmploiAddress
              (PrescriberWithOrgInvitationForm_invited_user_exists_error []
                 (prescriber_form pe_organization ''jo@gmail.com'') ''jo@gmail.com''))
   \<and> (''email'', NotPoleEmploiAddress)
        \<in> set (form_errors (snd (projr
              (PrescriberWithOrgInvitationForm_clean_email ''@pole-emploi.fr'' []
                 (prescriber_form pe_organization ''jo@gmail.com'')))))
   \<and> PrescriberWithOrgInvitationForm_clean_email ''@pole-emploi.fr'' []
       (prescriber_form cap_emploi_organization ''jo@gmail.com'')
     = Inr (''jo@gmail.com'',
            PrescriberWithOrgInvitationForm_invited_user_exists_error []
              (prescriber_form cap_emploi_organization ''jo@gmail.com'') ''jo@gmail.com'')"
proof -
  let ?e = "''jo@gmail.com''"
  let ?s = "''@pole-emploi.fr''"
  have h1: "map_of (cleaned_data (prescriber_form pe_organization ?e)) ''email'' = Some ?e
            \<and> org_kind (pw_organization (prescriber_form pe_organization ?e)) = PE"
    by (simp add: prescriber_form_def pe_organization_def)
  have h2: "\<not> suffix ?s ?e"
    by (simp add: endswith_iff_suffix [symmetric] endswith_def)
  have h3: "map_of (cleaned_data (prescriber_form cap_emploi_organization ?e)) ''email'' = Some ?e
            \<and> org_kind (pw_organization (prescriber_form cap_emploi_organization ?e)) \<noteq> PE"
    by (simp add: prescriber_form_def cap_emploi_organization_def)
  show ?thesis
    using PrescriberWithOrgInvitationForm_clean_email_suffix
            [of "prescriber_form pe_organization ?e" ?e ?s "[]"]
          PrescriberWithOrgInvitationForm_clean_email_suffix
            [of "prescriber_form cap_emploi_organization ?e" ?e ?s "[]"]
          h1 h2 h3
    by blast
qed


section \<open>The size of a valid batch\<close>

lemma form_data_add_error: "form_data (add_error field e f) = form_data f"
  by (simp add: add_error_def)

lemma data_value_cong: "form_data f = form_data g \<Longrightarrow> data_value f name = data_value g name"
  by (simp add: data_value_def)

lemma has_changed_cong: "form_data f = form_data g \<Longrightarrow> has_changed f = has_changed g"
  by (simp add: has_changed_def data_value_def)

lemma form_data_clean_plain_field: "form_data (clean_plain_field name f) = form_data f"
  by (simp add: clean_plain_field_def form_data_add_error)

lemma not_changed_email_blank: "\<not> has_changed f \<Longrightarrow> data_value f ''email'' = []"
  by (simp add: has_changed_def form_fields_def)

lemma full_clean_form_data:
  assumes hook: "\<And>g v g'. clean_email g = Inr (v, g') \<Longrightarrow> form_data g' = form_data g"
    and fc: "full_clean clean_email f = Inr f'"
  shows "form_data f' = form_data f"
proof -
  let ?f = "f\<lparr>form_errors := [], cleaned_data := []\<rparr>"
  let ?f2 = "clean_plain_field ''last_name'' (clean_plain_field ''first_name'' ?f)"
  have d2: "form_data ?f2 = form_data f"
    by (simp add: form_data_clean_plain_field)
  show ?thesis
  proof (cases "empty_permitted ?f \<and> \<not> has_changed ?f")
    case True
    then have "f' = ?f" using fc by (simp add: full_clean_def Let_def)
    then show ?thesis by simp
  next
    case False
    show ?thesis
    proof (cases "data_value ?f2 ''email'' = []")
      case True
      then have "f' = add_error ''email'' (OtherError ''required'') ?f2"
        using fc False by (auto simp: full_clean_def Let_def split: if_splits)
      then show ?thesis using d2 by (simp add: form_data_add_error)
    next
      case blank: False
      let ?g = "?f2\<lparr>cleaned_data := dict_set ''email'' (data_value ?f2 ''email'') (cleaned_data ?f2)\<rparr>"
      obtain v f3 where h: "clean_email ?g = Inr (v, f3)"
        and r: "f' = f3\<lparr>cleaned_data := dict_set ''email'' v (cleaned_data f3)\<rparr>"
        using fc False blank
        by (auto simp: full_clean_def Let_def split: sum.splits)
      have "form_data f3 = form_data ?g" using hook [OF h] .
      then show ?thesis using r d2 by simp
    qed
  qed
qed

lemma full_clean_blank_errors:
  assumes fc: "full_clean clean_email f = Inr f'"
    and "\<not> empty_permitted f" "\<not> has_changed f"
  shows "form_errors f' \<noteq> []"
proof -
  let ?f = "f\<lparr>form_errors := [], cleaned_data := []\<rparr>"
  let ?f2 = "clean_plain_field ''last_name'' (clean_plain_field ''first_name'' ?f)"
  have "form_data ?f2 = form_data f"
    by (simp add: form_data_clean_plain_field)
  then have "has_changed ?f2 = has_changed f" by (rule has_changed_cong)
  then have "data_value ?f2 ''email'' = []"
    using assms(3) not_changed_email_blank by blast
  then have "f' = add_error ''email'' (OtherError ''required'') ?f2"
    using fc assms(2) by (auto simp: full_clean_def Let_def split: if_splits)
  then show ?thesis by (simp add: add_error_def)
qed

lemma full_clean_all_length:
  "full_clean_all clean_email fs = Inr fs' \<Longrightarrow> length fs' = length fs"
  by (induction fs arbitrary: fs') (auto split: sum.splits)

lemma submit_valid_bounds:
  assumes hook: "\<And>g v g'. clean_email g = Inr (v, g') \<Longrightarrow> form_data g' = form_data g"
    and amax: "0 < absolute_max opts"
    and sub: "submit clean_email opts template entries = Inr (True, forms)"
  shows "forms \<noteq> [] \<and> has_changed (hd forms) \<and> length forms = length entries
         \<and> length entries \<le> absolute_max opts"
proof -
  obtain constructed where i: "InvitationFormSet_init (construct_forms opts template entries) = Inr constructed"
    and c: "full_clean_all clean_email constructed = Inr forms"
    and v: "is_valid opts (length entries) forms"
    using sub by (auto simp: submit_def split: sum.splits)
  obtain f fs where cf: "construct_forms opts template entries = f # fs"
    and con: "constructed = f\<lparr>empty_permitted := False\<rparr> # fs"
    using i by (auto simp: InvitationFormSet_init_def split: list.splits)
  obtain f' fs' where f': "full_clean clean_email (f\<lparr>empty_permitted := False\<rparr>) = Inr f'"
    and forms: "forms = f' # fs'"
    using c con by (auto split: sum.splits)
  have ne: "form_errors f' = []"
    using v forms by (simp add: is_valid_def)
  have "has_changed (f\<lparr>empty_permitted := False\<rparr>)"
    using full_clean_blank_errors [OF f'] ne by auto
  moreover have "form_data f' = form_data (f\<lparr>empty_permitted := False\<rparr>)"
    using full_clean_form_data [OF hook f'] by simp
  ultimately have hc: "has_changed f'"
    using has_changed_cong by blast
  have nfe: "non_form_errors opts (length entries) forms = []"
    using v by (simp add: is_valid_def)
  have le: "length entries \<le> absolute_max opts"
  proof (rule ccontr)
    assume "\<not> length entries \<le> absolute_max opts"
    then have "non_form_errors opts (length entries) forms \<noteq> []"
      by (simp add: non_form_errors_def)
    then show False using nfe by simp
  qed
  have "length forms = length (construct_forms opts template entries)"
    using full_clean_all_length [OF c] con cf by simp
  also have "\<dots> = length entries"
    using le by (simp add: construct_forms_def)
  finally have "length forms = length entries" .
  then show ?thesis using forms hc le by simp
qed

lemma Prescriber_clean_email_form_data:
  "PrescriberWithOrgInvitationForm_clean_email sfx users g = Inr (v, g') \<Longrightarrow> form_data g' = form_data g"
  by (auto simp: PrescriberWithOrgInvitationForm_clean_email_def
        PrescriberWithOrgInvitationForm_invited_user_exists_error_def
        form_data_add_error Let_def split: option.splits if_splits)

lemma SiaeStaff_clean_email_form_data:
  "SiaeStaffInvitationForm_clean_email users g = Inr (v, g') \<Longrightarrow> form_data g' = form_data g"
  by (auto simp: SiaeStaffInvitationForm_clean_email_def
        SiaeStaffInvitationForm_invited_user_exists_error_def
        form_data_add_error Let_def split: option.splits if_splits)

lemma LaborInspector_clean_email_form_data:
  "LaborInspectorInvitationForm_clean_email users g = Inr (v, g') \<Longrightarrow> form_data g' = form_data g"
  by (auto simp: LaborInspectorInvitationForm_clean_email_def
        LaborInspectorInvitationForm_invited_user_exists_error_def
        form_data_add_error Let_def split: option.splits if_splits)

lemma persisted_valid_bounds:
  assumes "is_valid opts n forms" "forms \<noteq> []" "has_changed (hd forms)"
  shows "1 \<le> length (persisted opts n forms) \<and> length (persisted opts n forms) \<le> length forms"
proof -
  obtain f fs where "forms = f # fs" using assms(2) by (cases forms) auto
  then have "1 \<le> length (filter has_changed forms)" using assms(3) by simp
  moreover have "length (filter has_changed forms) \<le> length forms" by (rule length_filter_le)
  ultimately show ?thesis using assms(1) by (simp add: persisted_def)
qed

lemma factory_options:
  "absolute_max (modelformset_factory 1 30) = 1030"
  "max_num (modelformset_factory 1 30) = 30"
  "\<not> validate_max (modelformset_factory 1 30)"
  by (simp_all add: modelformset_factory_def)

lemma submit_factory_bounds:
  assumes hook: "\<And>g v g'. clean_email g = Inr (v, g') \<Longrightarrow> form_data g' = form_data g"
    and sub: "submit clean_email (modelformset_factory 1 30) template entries = Inr (True, forms)"
  shows "has_changed (hd forms)
        \<and> 1 \<le> length (persisted (modelformset_factory 1 30) (length entries) forms)
        \<and> length (persisted (modelformset_factory 1 30) (length entries) forms) \<le> length entries
        \<and> length entries \<le> 1030"
proof -
  have b: "forms \<noteq> [] \<and> has_changed (hd forms) \<and> length forms = length entries
           \<and> length entries \<le> absolute_max (modelformset_factory 1 30)"
    using submit_valid_bounds [OF hook _ sub] factory_options(1) by simp
  have v: "is_valid (modelformset_factory 1 30) (length entries) forms"
    using sub by (auto simp: submit_def split: sum.splits)
  show ?thesis
    using persisted_valid_bounds [OF v] b factory_options(1) by simp
qed

text \<open>
  C10 (amended). Each of the three invitation formsets is built with \<open>max_num = 30\<close>
  and without \<open>validate_max\<close>, and forbids an empty first form. A submitted batch that
  validates has a first form that was filled in, so at least one invitation is persisted;
  the number of its entries is bounded by \<open>absolute_max = max_num + 1000 = 1030\<close>, the
  only limit the framework enforces on submitted data when \<open>validate_max\<close> is off.
\<close>

theorem invitation_formsets_batch_bounds:
  "(submit (PrescriberWithOrgInvitationForm_clean_email sfx pusers)
       PrescriberWithOrgInvitationFormSet ptemplate pentries = Inr (True, pforms)
    \<longrightarrow> has_changed (hd pforms)
        \<and> 1 \<le> length (persisted PrescriberWithOrgInvitationFormSet (length pentries) pforms)
        \<and> length (persisted PrescriberWithOrgInvitationFormSet (length pentries) pforms)
            \<le> length pentries
        \<and> length pentries \<le> 1030)
   \<and> (submit (SiaeStaffInvitationForm_clean_email susers)
       SiaeStaffInvitationFormSet stemplate sentries = Inr (True, sforms)
    \<longrightarrow> has_changed (hd sforms)
        \<and> 1 \<le> length (persisted SiaeStaffInvitationFormSet (length sentries) sforms)
        \<and> length (persisted SiaeStaffInvitationFormSet (length sentries) sforms)
            \<le> length sentries
        \<and> length sentries \<le> 1030)
   \<and> (submit (LaborInspectorInvitationForm_clean_email lusers)
       LaborInspectorInvitationFormSet ltemplate lentries = Inr (True, lforms)
    \<longrightarrow> has_changed (hd lforms)
        \<and> 1 \<le> length (persisted LaborInspectorInvitationFormSet (length lentries) lforms)
        \<and> length (persisted LaborInspectorInvitationFormSet (length lentries) lforms)
            \<le> length lentries
        \<and> length lentries \<le> 1030)
   \<and> max_num PrescriberWithOrgInvitationFormSet = 30
   \<and> max_num SiaeStaffInvitationFormSet = 30
   \<and> max_num LaborInspectorInvitationFormSet = 30
   \<and> \<not> validate_max PrescriberWithOrgInvitationFormSet
   \<and> \<not> validate_max SiaeStaffInvitationFormSet
   \<and> \<not> validate_max LaborInspectorInvitationFormSet"
proof -
  have p: "has_changed (hd pforms)
        \<and> 1 \<le> length (persisted (modelformset_factory 1 30) (length pentries) pforms)
        \<and> length (persisted (modelformset_factory 1 30) (length pentries) pforms)
            \<le> length pentries
        \<and> length pentries \<le> 1030"
    if a: "submit (PrescriberWithOrgInvitationForm_clean_email sfx pusers)
             (modelformset_factory 1 30) ptemplate pentries = Inr (True, pforms)"
  proof (rule submit_factory_bounds [OF _ a])
    show "form_data g' = form_data g"
      if "PrescriberWithOrgInvitationForm_clean_email sfx pusers g = Inr (v, g')" for g v g'
      using that by (rule Prescriber_clean_email_form_data)
  qed
  have s: "has_changed (hd sforms)
        \<and> 1 \<le> length (persisted (modelformset_factory 1 30) (length sentries) sforms)
        \<and> length (persisted (modelformset_factory 1 30) (length sentries) sforms)
            \<le> length sentries
        \<and> length sentries \<le> 1030"
    if a: "submit (SiaeStaffInvitationForm_clean_email susers)
             (modelformset_factory 1 30) stemplate sentries = Inr (True, sforms)"
  proof (rule submit_factory_bounds [OF _ a])
    show "form_data g' = form_data g"
      if "SiaeStaffInvitationForm_clean_email susers g = Inr (v, g')" for g v g'
      using that by (rule SiaeStaff_clean_email_form_data)
  qed
  have l: "has_changed (hd lforms)
        \<and> 1 \<le> length (persisted (modelformset_factory 1 30) (length lentries) lforms)
        \<and> length (persisted (modelformset_factory 1 30) (length lentries) lforms)
            \<le> length lentries
        \<and> length lentries \<le> 1030"
    if a: "submit (LaborInspectorInvitationForm_clean_email lusers)
             (modelformset_factory 1 30) ltemplate lentries = Inr (True, lforms)"
  proof (rule submit_factory_bounds [OF _ a])
    show "form_data g' = form_data g"
      if "LaborInspectorInvitationForm_clean_email lusers g = Inr (v, g')" for g v g'
      using that by (rule LaborInspector_clean_email_form_data)
  qed
  show ?thesis
    unfolding PrescriberWithOrgInvitationFormSet_def SiaeStaffInvitationFormSet_def
      LaborInspectorInvitationFormSet_def
    using p s l factory_options(2,3) by blast
qed


theorem invitation_formsets_batch_bounds_witness:
  "has_changed (hd (snd (projr (submit (PrescriberWithOrgInvitationForm_clean_email
                                            ''@pole-emploi.fr'' [employer_user])
                                  PrescriberWithOrgInvitationFormSet prescriber_template (batch 2)))))
   \<and> 1 \<le> length (persisted SiaeStaffInvitationFormSet (length (batch 2))
                  (snd (projr (submit (SiaeStaffInvitationForm_clean_email [employer_user])
                                  SiaeStaffInvitationFormSet siae_template (batch 2)))))
   \<and> length (persisted LaborInspectorInvitationFormSet (length (batch 2))
              (snd (projr (submit (LaborInspectorInvitationForm_clean_email [employer_user])
                              LaborInspectorInvitationFormSet inspector_template (batch 2)))))
        \<le> length (batch 2)
   \<and> length (batch 2) \<le> 1030"
proof -
  let ?p = "submit (PrescriberWithOrgInvitationForm_clean_email ''@pole-emploi.fr'' [employer_user])
              PrescriberWithOrgInvitationFormSet prescriber_template (batch 2)"
  let ?s = "submit (SiaeStaffInvitationForm_clean_email [employer_user])
              SiaeStaffInvitationFormSet siae_template (batch 2)"
  let ?l = "submit (LaborInspectorInvitationForm_clean_email [employer_user])
              LaborInspectorInvitationFormSet inspector_template (batch 2)"
  have hp: "?p = Inr (True, snd (projr ?p))" by code_simp
  have hs: "?s = Inr (True, snd (projr ?s))" by code_simp
  have hl: "?l = Inr (True, snd (projr ?l))" by code_simp
  show ?thesis
    using hp hs hl
      invitation_formsets_batch_bounds
        [of "''@pole-emploi.fr''" "[employer_user]" prescriber_template "batch 2" "snd (projr ?p)"
            "[employer_user]" siae_template "batch 2" "snd (projr ?s)"
            "[employer_user]" inspector_template "batch 2" "snd (projr ?l)"]
    by blast
qed

text \<open>
  The bound of 30 fails: a SIAE staff invitation batch of 31 entries with
  distinct emails, none of them a user's, validates, and its 31 invitations are
  persisted.
\<close>

theorem invitation_formsets_batch_bounds_counterexample:
  "submit (SiaeStaffInvitationForm_clean_email [employer_user]) SiaeStaffInvitationFormSet
       siae_template (batch 31)
     = Inr (True, snd (projr (submit (SiaeStaffInvitationForm_clean_email [employer_user])
                                SiaeStaffInvitationFormSet siae_template (batch 31))))
   \<and> length (batch 31) = 31
   \<and> max_num SiaeStaffInvitationFormSet = 30
   \<and> length (persisted SiaeStaffInvitationFormSet 31
        (snd (projr (submit (SiaeStaffInvitationForm_clean_email [employer_user])
                        SiaeStaffInvitationFormSet siae_template (batch 31))))) = 31"
  by code_simp

end
